theory Spec2Isabelle
  imports Main
begin

section \<open>JavaScript values used by the package\<close>

text \<open>
  The package is one JavaScript module (\<^verbatim>\<open>index.js\<close>). Strings are modelled as lists of
  8-bit characters: the Latin-1 range of JavaScript's UTF-16 code units. A Number is
  \<open>NaN\<close>, an infinity or an integer; \<open>parseInt\<close> produces no other Number.
  The sign of zero is not kept: the source only asks \<open>isNaN(x)\<close> and \<open>x <= 0\<close>, which
  do not tell \<open>-0\<close> from \<open>0\<close>.
\<close>

datatype jsnum = NaN | Finite int | PosInfinity | NegInfinity

text \<open>
  A value of a raw EditorConfig mapping is a string or a boolean (the spec's RawConfig).
  A missing key reads as \<open>undefined\<close>, modelled by \<open>None\<close>.
\<close>

datatype rawval = RStr string | RBool bool

type_synonym RawConfig = "(string \<times> rawval) list"

text \<open>
  The values a settings field can hold after normalisation: the code stores booleans,
  strings (among them the sentinel \<^verbatim>\<open>'unset'\<close>), Numbers, and, through the lookup in the
  \<open>lineEndings\<close> object literal, whatever that object inherits from
  \<open>Object.prototype\<close>.
\<close>

datatype jsval =
    JUndefined
  | JBool bool
  | JStr string
  | JNum jsnum
  | JFunction string
  | JObject string

definition unset :: jsval where
  "unset = JStr ''unset''"

datatype js_error = TypeError string

datatype outcome = Returned | Thrown js_error

subsection \<open>Property access on the raw mapping\<close>

definition has_key :: "string \<Rightarrow> RawConfig \<Rightarrow> bool" where
  "has_key k config = (map_of config k \<noteq> None)"

definition get_prop :: "RawConfig \<Rightarrow> string \<Rightarrow> rawval option" where
  "get_prop config k = map_of config k"

text \<open>\<open>Object.keys(config)\<close>: the own keys, each once.\<close>

definition object_keys :: "RawConfig \<Rightarrow> string list" where
  "object_keys config = remdups (map fst config)"

text \<open>JavaScript truthiness and the operator \<open>||\<close> on possibly undefined raw values.\<close>

fun truthy :: "rawval option \<Rightarrow> bool" where
  "truthy None = False"
| "truthy (Some (RBool b)) = b"
| "truthy (Some (RStr s)) = (s \<noteq> [])"

definition js_or :: "rawval option \<Rightarrow> rawval option \<Rightarrow> rawval option" where
  "js_or a b = (if truthy a then a else b)"

fun to_string :: "rawval option \<Rightarrow> string" where
  "to_string None = ''undefined''"
| "to_string (Some (RBool True)) = ''true''"
| "to_string (Some (RBool False)) = ''false''"
| "to_string (Some (RStr s)) = s"

subsection \<open>\<open>parseInt(x, 10)\<close>\<close>

text \<open>
  \<open>parseInt\<close> converts its argument to a string, skips leading white space, reads an
  optional sign and then the longest prefix of decimal digits; with no digit the result
  is \<open>NaN\<close>. The mathematical value of the digits becomes a Number, that is the nearest
  double (ties to even), which is the value itself below \<open>2^53\<close> and an infinity from
  \<open>2^1024 - 2^970\<close> on.
\<close>

definition is_js_space :: "char \<Rightarrow> bool" where
  "is_js_space c = (of_char c \<in> {9::nat, 10, 11, 12, 13, 32, 160})"

definition is_digit :: "char \<Rightarrow> bool" where
  "is_digit c = (48 \<le> (of_char c :: nat) \<and> (of_char c :: nat) \<le> 57)"

definition digits_value :: "string \<Rightarrow> nat" where
  "digits_value ds = foldl (\<lambda>acc c. 10 * acc + (of_char c - 48)) 0 ds"

fun bit_length :: "nat \<Rightarrow> nat" where
  "bit_length n = (if n = 0 then 0 else Suc (bit_length (n div 2)))"

declare bit_length.simps [simp del]

definition to_Number :: "nat \<Rightarrow> jsnum" where
  "to_Number n =
     (if n < 2 ^ 53 then Finite (int n)
      else
        (let e = bit_length n - 53;
             q = n div 2 ^ e;
             r = n mod 2 ^ e;
             h = 2 ^ (e - 1);
             q' = (if h < r \<or> (r = h \<and> odd q) then q + 1 else q);
             v = q' * 2 ^ e
         in if 2 ^ 1024 \<le> v then PosInfinity else Finite (int v)))"

fun negate :: "jsnum \<Rightarrow> jsnum" where
  "negate NaN = NaN"
| "negate (Finite i) = Finite (- i)"
| "negate PosInfinity = NegInfinity"
| "negate NegInfinity = PosInfinity"

definition strip_sign :: "string \<Rightarrow> bool \<times> string" where
  "strip_sign s =
     (case s of
        [] \<Rightarrow> (False, [])
      | c # cs \<Rightarrow>
          if c = CHR ''-'' then (True, cs)
          else if c = CHR ''+'' then (False, cs)
          else (False, s))"

definition parseInt10 :: "string \<Rightarrow> jsnum" where
  "parseInt10 s =
     (let (neg, u) = strip_sign (dropWhile is_js_space s);
          z = takeWhile is_digit u
      in if z = [] then NaN
         else if neg then negate (to_Number (digits_value z))
         else to_Number (digits_value z))"

definition parseInt :: "rawval option \<Rightarrow> jsnum" where
  "parseInt v = parseInt10 (to_string v)"

fun isNaN :: "jsnum \<Rightarrow> bool" where
  "isNaN NaN = True"
| "isNaN _ = False"

text \<open>\<open>x <= 0\<close> on Numbers: false for \<open>NaN\<close>.\<close>

fun le_zero :: "jsnum \<Rightarrow> bool" where
  "le_zero NaN = False"
| "le_zero (Finite i) = (i \<le> 0)"
| "le_zero PosInfinity = False"
| "le_zero NegInfinity = True"

subsection \<open>String methods\<close>

text \<open>
  \<open>s.search(/^(space|tab)$/) > -1\<close>: without the multiline flag the pattern matches the
  whole string only.
\<close>

definition matches_space_or_tab :: "string \<Rightarrow> bool" where
  "matches_space_or_tab s = (s = ''space'' \<or> s = ''tab'')"

text \<open>\<open>s.replace(/-/g, '')\<close> and \<open>toLowerCase()\<close> on the Latin-1 range.\<close>

definition remove_hyphens :: "string \<Rightarrow> string" where
  "remove_hyphens s = filter (\<lambda>c. c \<noteq> CHR ''-'') s"

definition lower_char :: "char \<Rightarrow> char" where
  "lower_char c =
     (let n = (of_char c :: nat)
      in if (65 \<le> n \<and> n \<le> 90) \<or> (192 \<le> n \<and> n \<le> 222 \<and> n \<noteq> 215)
         then char_of (n + 32) else c)"

definition toLowerCase :: "string \<Rightarrow> string" where
  "toLowerCase s = map lower_char s"

subsection \<open>The \<open>lineEndings\<close> lookup\<close>

text \<open>
  \<^verbatim>\<open>lineEndings[config.end_of_line]\<close> reads a property of an object literal: the key is
  the value converted to a string, and a key the literal does not own is looked up in
  \<open>Object.prototype\<close>.
\<close>

definition object_prototype_functions :: "string list" where
  "object_prototype_functions =
     [''constructor'', ''hasOwnProperty'', ''isPrototypeOf'', ''propertyIsEnumerable'',
      ''toLocaleString'', ''toString'', ''valueOf'', ''__defineGetter__'',
      ''__defineSetter__'', ''__lookupGetter__'', ''__lookupSetter__'']"

definition lineEndings :: "string \<Rightarrow> jsval" where
  "lineEndings k =
     (if k = ''crlf'' then JStr [CHR 0x0D, CHR 0x0A]
      else if k = ''cr'' then JStr [CHR 0x0D]
      else if k = ''lf'' then JStr [CHR 0x0A]
      else if k \<in> set object_prototype_functions then JFunction k
      else if k = ''__proto__'' then JObject ''Object.prototype''
      else JUndefined)"

fun js_truthy :: "jsval \<Rightarrow> bool" where
  "js_truthy JUndefined = False"
| "js_truthy (JBool b) = b"
| "js_truthy (JStr s) = (s \<noteq> [])"
| "js_truthy (JNum n) = (\<not> isNaN n \<and> n \<noteq> Finite 0)"
| "js_truthy (JFunction f) = True"
| "js_truthy (JObject x) = True"

section \<open>The per-buffer settings and their normalisation\<close>

record canonical_settings =
  trim_trailing_whitespace :: jsval
  insert_final_newline :: jsval
  max_line_length :: jsval
  end_of_line :: jsval
  indent_style :: jsval
  tab_width :: jsval
  charset :: jsval

definition initial_settings :: canonical_settings where
  "initial_settings =
     \<lparr> trim_trailing_whitespace = unset, insert_final_newline = unset,
       max_line_length = unset, end_of_line = unset, indent_style = unset,
       tab_width = unset, charset = unset \<rparr>"

text \<open>
  Lines 200 to 229 of \<^verbatim>\<open>index.js\<close>, one definition per assignment. The two assignments
  that call a string method throw a \<open>TypeError\<close> when the raw value is not a string.
\<close>

definition normalize_boolean :: "string \<Rightarrow> RawConfig \<Rightarrow> jsval" where
  "normalize_boolean k config =
     (case get_prop config k of
        Some (RBool b) \<Rightarrow> JBool (b = True)
      | _ \<Rightarrow> unset)"

definition normalize_indent_style :: "RawConfig \<Rightarrow> js_error + jsval" where
  "normalize_indent_style config =
     (case get_prop config ''indent_style'' of
        None \<Rightarrow> Inr unset
      | Some (RStr s) \<Rightarrow> Inr (if matches_space_or_tab s then JStr s else unset)
      | Some (RBool b) \<Rightarrow> Inl (TypeError ''config.indent_style.search is not a function''))"

definition normalize_end_of_line :: "RawConfig \<Rightarrow> jsval" where
  "normalize_end_of_line config =
     (let v = lineEndings (to_string (get_prop config ''end_of_line''))
      in if js_truthy v then v else unset)"

definition positive_or_unset :: "jsnum \<Rightarrow> jsval" where
  "positive_or_unset n = (if isNaN n \<or> le_zero n then unset else JNum n)"

definition normalize_tab_width :: "RawConfig \<Rightarrow> jsval" where
  "normalize_tab_width config =
     positive_or_unset (parseInt (js_or (get_prop config ''indent_size'') (get_prop config ''tab_width'')))"

definition normalize_max_line_length :: "RawConfig \<Rightarrow> jsval" where
  "normalize_max_line_length config =
     positive_or_unset (parseInt (get_prop config ''max_line_length''))"

definition normalize_charset :: "RawConfig \<Rightarrow> js_error + jsval" where
  "normalize_charset config =
     (case get_prop config ''charset'' of
        None \<Rightarrow> Inr unset
      | Some (RStr s) \<Rightarrow> Inr (JStr (toLowerCase (remove_hyphens s)))
      | Some (RBool b) \<Rightarrow> Inl (TypeError ''config.charset.replace is not a function''))"

text \<open>
  The assignments run in the source's order on the settings object itself, so a throw
  leaves the fields assigned before it changed.
\<close>

definition normalize :: "RawConfig \<Rightarrow> canonical_settings \<Rightarrow> outcome \<times> canonical_settings" where
  "normalize config s0 =
     (let s1 = s0\<lparr>trim_trailing_whitespace := normalize_boolean ''trim_trailing_whitespace'' config\<rparr>;
          s2 = s1\<lparr>insert_final_newline := normalize_boolean ''insert_final_newline'' config\<rparr>
      in case normalize_indent_style config of
           Inl e \<Rightarrow> (Thrown e, s2)
         | Inr i \<Rightarrow>
             (let s3 = s2\<lparr>indent_style := i\<rparr>;
                  s4 = s3\<lparr>end_of_line := normalize_end_of_line config\<rparr>;
                  s5 = s4\<lparr>tab_width := normalize_tab_width config\<rparr>;
                  s6 = s5\<lparr>max_line_length := normalize_max_line_length config\<rparr>
              in case normalize_charset config of
                   Inl e \<Rightarrow> (Thrown e, s6)
                 | Inr c \<Rightarrow> (Returned, s6\<lparr>charset := c\<rparr>)))"

section \<open>The text buffer and the pre-save hook\<close>

text \<open>
  The content of a \<open>TextBuffer\<close> is a string; its rows are the pieces between line feeds,
  so a buffer always has at least one row. The operations below are the ones of Atom's
  \<open>text-buffer\<close> that \<open>onWillSave\<close> calls, with rows counted from 0.
\<close>

fun split_rows :: "string \<Rightarrow> string list" where
  "split_rows [] = [[]]"
| "split_rows (c # cs) =
     (if c = CHR 0x0A then [] # split_rows cs
      else (c # hd (split_rows cs)) # tl (split_rows cs))"

fun join_rows :: "string list \<Rightarrow> string" where
  "join_rows [] = []"
| "join_rows [r] = r"
| "join_rows (r # rs) = r @ CHR 0x0A # join_rows rs"

definition getLineCount :: "string \<Rightarrow> int" where
  "getLineCount t = int (length (split_rows t))"

definition lineForRow :: "string \<Rightarrow> int \<Rightarrow> string" where
  "lineForRow t row = split_rows t ! nat row"

text \<open>\<open>isRowBlank(row)\<close> is \<^verbatim>\<open>!/\S/.test(lineForRow(row))\<close>.\<close>

definition isRowBlank :: "string \<Rightarrow> int \<Rightarrow> bool" where
  "isRowBlank t row = list_all is_js_space (lineForRow t row)"

text \<open>
  \<open>previousNonBlankRow(startRow)\<close> returns \<open>null\<close> for row 0 and when every earlier
  row is blank.
\<close>

definition previousNonBlankRow :: "string \<Rightarrow> int \<Rightarrow> int option" where
  "previousNonBlankRow t startRow =
     (if startRow = 0 then None
      else
        (let s = min startRow (getLineCount t - 1)
         in map_option int (find (\<lambda>r. \<not> isRowBlank t (int r)) (rev [0 ..< nat s]))))"

text \<open>
  \<open>deleteRows(startRow, endRow)\<close>: rows up to the last one are removed together with
  the line feed before them, so the row before \<open>startRow\<close> becomes the last row.
\<close>

definition deleteRows :: "int \<Rightarrow> int \<Rightarrow> string \<Rightarrow> string" where
  "deleteRows startRow0 endRow0 t =
     (let rows = split_rows t;
          lastRow = int (length rows) - 1;
          startRow = (if startRow0 > endRow0 then endRow0 else startRow0);
          endRow = (if startRow0 > endRow0 then startRow0 else endRow0)
      in if endRow < 0 then t
         else if startRow > lastRow then t
         else
           (let s = nat (max 0 startRow);
                e = nat (min lastRow endRow)
            in if int e < lastRow then join_rows (take s rows @ drop (Suc e) rows)
               else join_rows (take s rows)))"

definition buffer_append :: "string \<Rightarrow> string \<Rightarrow> string" where
  "buffer_append t x = t @ x"

text \<open>
  \<^verbatim>\<open>backwardsScan(/[ \t]+$/gm, params => params.replace(''))\<close>: every run of spaces and
  tabs that ends at a line terminator or at the end of the content is removed.
\<close>

definition is_space_or_tab :: "char \<Rightarrow> bool" where
  "is_space_or_tab c = (c = CHR 0x20 \<or> c = CHR 0x09)"

definition at_line_end :: "string \<Rightarrow> bool" where
  "at_line_end rest = (case rest of [] \<Rightarrow> True | c # cs \<Rightarrow> c = CHR 0x0A \<or> c = CHR 0x0D)"

definition trim_trailing_spaces :: "string \<Rightarrow> string" where
  "trim_trailing_spaces t =
     foldr (\<lambda>c acc. if is_space_or_tab c \<and> at_line_end acc then acc else c # acc) t []"

text \<open>
  Arithmetic and comparison convert \<open>null\<close> to 0: \<^verbatim>\<open>stripStart += 1\<close>,
  \<^verbatim>\<open>stripStart < lastRow\<close> and \<^verbatim>\<open>stripStart + 1\<close> on a \<open>null\<close> result of
  \<open>previousNonBlankRow\<close>.
\<close>

fun null_to_number :: "int option \<Rightarrow> int" where
  "null_to_number None = 0"
| "null_to_number (Some i) = i"

definition onWillSave :: "canonical_settings \<Rightarrow> string \<Rightarrow> string" where
  "onWillSave s t0 =
     (let t1 = (if trim_trailing_whitespace s = JBool True then trim_trailing_spaces t0 else t0)
      in if insert_final_newline s \<noteq> unset then
           (let lastRow = getLineCount t1 - 1
            in if isRowBlank t1 lastRow then
                 (let p = previousNonBlankRow t1 lastRow;
                      stripStart = (if insert_final_newline s = JBool True
                                    then null_to_number p + 1 else null_to_number p)
                  in if stripStart < lastRow then deleteRows (stripStart + 1) lastRow t1 else t1)
               else if insert_final_newline s = JBool True then buffer_append t1 [CHR 0x0A]
               else t1)
         else t1)"

section \<open>Editors, buffers and the workspace\<close>

text \<open>
  Objects of the host are identified by numbers; two references are the same object
  (\<open>===\<close>) when the numbers are equal. The world records the state the package reads
  and writes, the resolutions it has requested from the external parser, and every call
  it makes to a setter of the host, to the status tile and to the console, in order.
\<close>

type_synonym editor_id = nat

type_synonym buffer_id = nat

type_synonym scope = "string list"

text \<open>
  A function stored in a property of the wrap-guide element: one of the host's own, or
  an export of \<^verbatim>\<open>lib/wrapguide-interceptor\<close> bound to the element (of the editor named).
\<close>

datatype guide_fn = HostFn string | BoundInterceptor string editor_id

record wrap_guide =
  wg_editorconfig :: "buffer_id option"
  getGuideColumn :: "guide_fn option"
  getNativeGuideColumn :: "guide_fn option"
  getGuidesColumns :: "guide_fn option"
  getNativeGuidesColumns :: "guide_fn option"

datatype event = WillSave | DidSave

datatype handler = OnWillSave buffer_id | ReapplyEditorconfig | ObserveTextEditor editor_id

text \<open>
  The object \<open>buffer.editorconfig\<close>: \<open>disposables\<close> holds the subscriptions added to
  the \<open>CompositeDisposable\<close>; \<open>config\<close> is \<open>None\<close> until a resolution stores one.
\<close>

record ecfg =
  disposables :: "(event \<times> handler) list"
  disposed :: bool
  state :: string
  settings :: canonical_settings
  config :: "RawConfig option"

record text_buffer =
  uri :: "string option"
  content :: string
  encoding :: jsval
  preferredLineEnding :: jsval
  subscriptions :: "(event \<times> handler) list"
  editorconfig :: "ecfg option"

record text_editor =
  buffer :: buffer_id
  usesSoftTabs :: "bool option"
  softTabs :: jsval
  tabLength :: jsval
  preferredLineLength :: jsval
  rootScopeDescriptor :: scope
  wrapGuide :: "wrap_guide option"

datatype call =
    SetSoftTabs editor_id jsval
  | SetTabLength editor_id jsval
  | SetEncoding buffer_id jsval
  | EditorUpdate editor_id jsval
  | UpdateGuide editor_id
  | SetPreferredLineEnding buffer_id jsval
  | Checklist buffer_id
  | UpdateIcon string
  | RemoveIcon
  | ConsoleWarn string

text \<open>The reason of a rejected promise, with its conversion to a string.\<close>

datatype reason = ErrorInstance string | NotAnError string

record world =
  editors :: "editor_id \<Rightarrow> text_editor"
  buffers :: "buffer_id \<Rightarrow> text_buffer"
  textEditors :: "editor_id list"
  parse_requests :: "(editor_id \<times> string) list"
  unhandled_rejections :: "reason list"
  calls :: "call list"

text \<open>
  What the module takes from outside \<^verbatim>\<open>index.js\<close>: the host's configuration
  (\<open>atom.config.get(key, {scope})\<close>) and \<^verbatim>\<open>lib/checklist\<close>.
  Modelled from the spec: \<^verbatim>\<open>lib/checklist\<close> is missing from the sources; the spec says
  that applying settings "triggers UI severity/state update", so \<open>checklist\<close> is a
  parameter that computes the new \<open>state\<close> of the object it is given.
\<close>

record host =
  atom_config :: "string \<Rightarrow> scope \<Rightarrow> jsval"
  checklist :: "ecfg \<Rightarrow> string"

subsection \<open>Setters of the host\<close>

definition upd_editor :: "editor_id \<Rightarrow> (text_editor \<Rightarrow> text_editor) \<Rightarrow> world \<Rightarrow> world" where
  "upd_editor e f w = w\<lparr>editors := (editors w)(e := f (editors w e))\<rparr>"

definition upd_buffer :: "buffer_id \<Rightarrow> (text_buffer \<Rightarrow> text_buffer) \<Rightarrow> world \<Rightarrow> world" where
  "upd_buffer b f w = w\<lparr>buffers := (buffers w)(b := f (buffers w b))\<rparr>"

definition log_call :: "call \<Rightarrow> world \<Rightarrow> world" where
  "log_call c w = w\<lparr>calls := calls w @ [c]\<rparr>"

definition setSoftTabs :: "editor_id \<Rightarrow> jsval \<Rightarrow> world \<Rightarrow> world" where
  "setSoftTabs e v w = log_call (SetSoftTabs e v) (upd_editor e (\<lambda>ed. ed\<lparr>softTabs := v\<rparr>) w)"

definition setTabLength :: "editor_id \<Rightarrow> jsval \<Rightarrow> world \<Rightarrow> world" where
  "setTabLength e v w = log_call (SetTabLength e v) (upd_editor e (\<lambda>ed. ed\<lparr>tabLength := v\<rparr>) w)"

definition setEncoding :: "buffer_id \<Rightarrow> jsval \<Rightarrow> world \<Rightarrow> world" where
  "setEncoding b v w = log_call (SetEncoding b v) (upd_buffer b (\<lambda>bf. bf\<lparr>encoding := v\<rparr>) w)"

definition editor_update :: "editor_id \<Rightarrow> jsval \<Rightarrow> world \<Rightarrow> world" where
  "editor_update e v w =
     log_call (EditorUpdate e v) (upd_editor e (\<lambda>ed. ed\<lparr>preferredLineLength := v\<rparr>) w)"

definition setPreferredLineEnding :: "buffer_id \<Rightarrow> jsval \<Rightarrow> world \<Rightarrow> world" where
  "setPreferredLineEnding b v w =
     log_call (SetPreferredLineEnding b v) (upd_buffer b (\<lambda>bf. bf\<lparr>preferredLineEnding := v\<rparr>) w)"

subsection \<open>\<open>setState\<close>\<close>

definition setState :: "host \<Rightarrow> buffer_id \<Rightarrow> world \<Rightarrow> world" where
  "setState h b w =
     (case editorconfig (buffers w b) of
        None \<Rightarrow> w
      | Some c \<Rightarrow>
          (let c' = c\<lparr>state := checklist h c\<rparr>
           in log_call (UpdateIcon (state c'))
                (log_call (Checklist b)
                   (upd_buffer b (\<lambda>bf. bf\<lparr>editorconfig := Some c'\<rparr>) w))))"

subsection \<open>\<open>getCurrentEditor\<close> and \<open>applySettings\<close>\<close>

text \<open>
  The \<open>reduce\<close> over the open editors keeps the last one whose buffer is this buffer,
  and \<open>undefined\<close> when there is none.
\<close>

definition getCurrentEditor :: "buffer_id \<Rightarrow> world \<Rightarrow> editor_id option" where
  "getCurrentEditor b w =
     foldl (\<lambda>prev curr. if buffer (editors w curr) = b then Some curr else prev)
       None (textEditors w)"

text \<open>
  Lines 97 to 108: the properties of the wrap-guide element are replaced only while its
  \<open>editorconfig\<close> property is undefined.
\<close>

definition intercept_wrapGuide :: "buffer_id \<Rightarrow> editor_id \<Rightarrow> wrap_guide \<Rightarrow> wrap_guide" where
  "intercept_wrapGuide b e wg =
     (if wg_editorconfig wg = None then
        wg\<lparr> wg_editorconfig := Some b,
            getNativeGuideColumn := getGuideColumn wg,
            getGuideColumn := Some (BoundInterceptor ''getGuideColumn'' e),
            getNativeGuidesColumns := getGuidesColumns wg,
            getGuidesColumns := Some (BoundInterceptor ''getGuidesColumns'' e) \<rparr>
      else wg)"

definition ensure_wrapGuide :: "buffer_id \<Rightarrow> editor_id \<Rightarrow> world \<Rightarrow> world" where
  "ensure_wrapGuide b e w =
     (case wrapGuide (editors w e) of
        None \<Rightarrow> w
      | Some wg \<Rightarrow>
          log_call (UpdateGuide e)
            (upd_editor e (\<lambda>ed. ed\<lparr>wrapGuide := Some (intercept_wrapGuide b e wg)\<rparr>) w))"

definition apply_to_editor :: "host \<Rightarrow> buffer_id \<Rightarrow> editor_id \<Rightarrow> canonical_settings \<Rightarrow> world \<Rightarrow> world" where
  "apply_to_editor h b e s w =
     (let sc = rootScopeDescriptor (editors w e);
          w1 = (if indent_style s = unset then
                  (case usesSoftTabs (editors w e) of
                     None \<Rightarrow> setSoftTabs e (atom_config h ''editor.softTabs'' sc) w
                   | Some u \<Rightarrow> setSoftTabs e (JBool u) w)
                else setSoftTabs e (JBool (indent_style s = JStr ''space'')) w);
          w2 = (if tab_width s = unset
                then setTabLength e (atom_config h ''editor.tabLength'' sc) w1
                else setTabLength e (tab_width s) w1);
          w3 = (if charset s = unset
                then setEncoding b (atom_config h ''core.fileEncoding'' sc) w2
                else setEncoding b (charset s) w2);
          w4 = (if max_line_length s = unset
                then editor_update e (atom_config h ''editor.preferredLineLength'' sc) w3
                else editor_update e (max_line_length s) w3);
          w5 = ensure_wrapGuide b e w4
      in if end_of_line s \<noteq> unset then setPreferredLineEnding b (end_of_line s) w5 else w5)"

text \<open>
  \<open>applySettings\<close> is a method of the object stored in buffer \<open>b\<close>; it exists only
  when that object does.
\<close>

definition applySettings :: "host \<Rightarrow> buffer_id \<Rightarrow> world \<Rightarrow> world" where
  "applySettings h b w =
     (case editorconfig (buffers w b) of
        None \<Rightarrow> w
      | Some c \<Rightarrow>
          (case getCurrentEditor b w of
             None \<Rightarrow> w
           | Some e \<Rightarrow>
               setState h b
                 (if buffer (editors w e) = b then apply_to_editor h b e (settings c) w else w)))"

section \<open>Initialisation, observation and resolution\<close>

text \<open>
  \<^verbatim>\<open>uri.match(/[\\|/]\.editorconfig$/g) !== null\<close>: the URI ends with a backslash, a
  vertical bar or a slash followed by \<^verbatim>\<open>.editorconfig\<close>.
\<close>

definition ends_with :: "string \<Rightarrow> string \<Rightarrow> bool" where
  "ends_with suffix s =
     (length suffix \<le> length s \<and> drop (length s - length suffix) s = suffix)"

definition is_editorconfig_uri :: "string \<Rightarrow> bool" where
  "is_editorconfig_uri u =
     (ends_with (CHR 0x5C # ''.editorconfig'') u
      \<or> ends_with (CHR 0x7C # ''.editorconfig'') u
      \<or> ends_with (CHR 0x2F # ''.editorconfig'') u)"

text \<open>
  \<^verbatim>\<open>buffer.getUri() && ...\<close>: a URI is falsy when it is undefined or the empty string.
\<close>

definition new_ecfg :: "buffer_id \<Rightarrow> string option \<Rightarrow> ecfg" where
  "new_ecfg b u =
     \<lparr> disposables =
         (WillSave, OnWillSave b)
         # (case u of
              None \<Rightarrow> []
            | Some p \<Rightarrow> if p \<noteq> [] \<and> is_editorconfig_uri p then [(DidSave, ReapplyEditorconfig)] else []),
       disposed = False,
       state = ''subtle'',
       settings = initial_settings,
       config = None \<rparr>"

definition initializeTextBuffer :: "buffer_id \<Rightarrow> world \<Rightarrow> world" where
  "initializeTextBuffer b w =
     (if editorconfig (buffers w b) = None then
        (let c = new_ecfg b (uri (buffers w b))
         in upd_buffer b
              (\<lambda>bf. bf\<lparr>subscriptions := subscriptions bf @ disposables c, editorconfig := Some c\<rparr>) w)
      else w)"

text \<open>
  \<open>editor.getURI()\<close> is the URI of the editor's buffer, and \<open>editor.onDidSave\<close>
  subscribes to the buffer's event. The call \<open>editorconfig.parse(file)\<close> is recorded
  with the editor its callbacks close over; the promise settles later.
\<close>

definition getURI :: "editor_id \<Rightarrow> world \<Rightarrow> string option" where
  "getURI e w = uri (buffers w (buffer (editors w e)))"

definition subscribe_observe :: "editor_id \<Rightarrow> world \<Rightarrow> world" where
  "subscribe_observe e w =
     upd_buffer (buffer (editors w e))
       (\<lambda>bf. bf\<lparr>subscriptions := subscriptions bf @ [(DidSave, ObserveTextEditor e)]\<rparr>) w"

definition observeTextEditor :: "editor_id option \<Rightarrow> world \<Rightarrow> world" where
  "observeTextEditor editor w =
     (case editor of
        None \<Rightarrow> w
      | Some e \<Rightarrow>
          (let w1 = initializeTextBuffer (buffer (editors w e)) w
           in case getURI e w1 of
                None \<Rightarrow> subscribe_observe e w1
              | Some file \<Rightarrow>
                  if file = [] then subscribe_observe e w1
                  else w1\<lparr>parse_requests := parse_requests w1 @ [(e, file)]\<rparr>))"

text \<open>
  The callback given to \<open>then\<close> (lines 181 to 234). It reads
  \<open>editor.getBuffer().editorconfig\<close> when the promise resolves; were that undefined,
  reading its \<open>settings\<close> would throw.
\<close>

definition then_callback :: "host \<Rightarrow> editor_id \<Rightarrow> RawConfig \<Rightarrow> world \<Rightarrow> outcome \<times> world" where
  "then_callback h e cfg w =
     (if length (object_keys cfg) = 0 then (Returned, w)
      else
        (let b = buffer (editors w e)
         in case editorconfig (buffers w b) of
              None \<Rightarrow> (Thrown (TypeError ''Cannot read property 'settings' of undefined''), w)
            | Some c \<Rightarrow>
                (let (out, s') = normalize cfg (settings c);
                     w1 = upd_buffer b
                            (\<lambda>bf. bf\<lparr>editorconfig := Some (c\<lparr>config := Some cfg, settings := s'\<rparr>)\<rparr>) w
                 in case out of
                      Thrown err \<Rightarrow> (Thrown err, w1)
                    | Returned \<Rightarrow> (Returned, applySettings h b w1))))"

text \<open>
  \<^verbatim>\<open>.catch(Error, e => console.warn(...))\<close> is the filtered catch of the promise library
  the parser returns (Bluebird): the handler runs for a reason that is an instance of
  \<open>Error\<close>; any other rejection stays unhandled.
\<close>

definition catch_Error :: "reason \<Rightarrow> world \<Rightarrow> world" where
  "catch_Error r w =
     (case r of
        ErrorInstance msg \<Rightarrow> log_call (ConsoleWarn (''atom-editorconfig: '' @ msg)) w
      | NotAnError msg \<Rightarrow> w\<lparr>unhandled_rejections := unhandled_rejections w @ [r]\<rparr>)"

datatype settlement = Resolved RawConfig | Rejected reason

fun error_reason :: "js_error \<Rightarrow> reason" where
  "error_reason (TypeError msg) = ErrorInstance (''TypeError: '' @ msg)"

definition parse_settled :: "host \<Rightarrow> editor_id \<Rightarrow> settlement \<Rightarrow> world \<Rightarrow> world" where
  "parse_settled h e st w =
     (case st of
        Rejected r \<Rightarrow> catch_Error r w
      | Resolved cfg \<Rightarrow>
          (case then_callback h e cfg w of
             (Returned, w') \<Rightarrow> w'
           | (Thrown err, w') \<Rightarrow> catch_Error (error_reason err) w'))"

subsection \<open>Workspace-wide operations\<close>

definition reapplyEditorconfig :: "world \<Rightarrow> world" where
  "reapplyEditorconfig w = foldl (\<lambda>w' e. observeTextEditor (Some e) w') w (textEditors w)"

datatype pane_item = TextEditorItem editor_id | OtherItem | NoItem

definition observeActivePaneItem :: "host \<Rightarrow> pane_item \<Rightarrow> world \<Rightarrow> world" where
  "observeActivePaneItem h item w =
     (case item of
        TextEditorItem e \<Rightarrow>
          (if editorconfig (buffers w (buffer (editors w e))) \<noteq> None
           then applySettings h (buffer (editors w e)) w else w)
      | _ \<Rightarrow> log_call RemoveIcon w)"

text \<open>
  \<open>disposables.dispose()\<close> removes the subscriptions the object holds from the buffer's
  events. \<open>deactivate\<close> reads \<open>editorconfig.disposables\<close> of every open editor's
  buffer with no check, so the loop stops with a \<open>TypeError\<close> at the first buffer that
  has no such object.
\<close>

definition dispose :: "buffer_id \<Rightarrow> world \<Rightarrow> world" where
  "dispose b w =
     (case editorconfig (buffers w b) of
        None \<Rightarrow> w
      | Some c \<Rightarrow>
          (if disposed c then w
           else upd_buffer b
                  (\<lambda>bf. bf\<lparr> subscriptions := foldr remove1 (disposables c) (subscriptions bf),
                            editorconfig := Some (c\<lparr>disposables := [], disposed := True\<rparr>) \<rparr>) w))"



subsection \<open>Save events of a buffer\<close>

text \<open>
  An event calls the handlers subscribed when it is emitted, in the order of their
  subscription. The pre-save handler rewrites the content with the settings stored in
  its buffer.
\<close>

definition run_handler :: "handler \<Rightarrow> world \<Rightarrow> world" where
  "run_handler hnd w =
     (case hnd of
        OnWillSave b \<Rightarrow>
          (case editorconfig (buffers w b) of
             None \<Rightarrow> w
           | Some c \<Rightarrow> upd_buffer b (\<lambda>bf. bf\<lparr>content := onWillSave (settings c) (content bf)\<rparr>) w)
      | ReapplyEditorconfig \<Rightarrow> reapplyEditorconfig w
      | ObserveTextEditor e \<Rightarrow> observeTextEditor (Some e) w)"

definition emit :: "event \<Rightarrow> buffer_id \<Rightarrow> world \<Rightarrow> world" where
  "emit ev b w =
     foldl (\<lambda>w' hnd. run_handler hnd w') w
       (map snd (filter (\<lambda>sub. fst sub = ev) (subscriptions (buffers w b))))"

definition save :: "buffer_id \<Rightarrow> world \<Rightarrow> world" where
  "save b w = emit DidSave b (emit WillSave b w)"

text \<open>
  A requested resolution settles at some later time, in any order: the request leaves the
  pending ones and the callbacks run. The callbacks use the editor they closed over and
  never the path the request was made for.
\<close>

definition settle :: "host \<Rightarrow> editor_id \<times> string \<Rightarrow> settlement \<Rightarrow> world \<Rightarrow> world" where
  "settle h req st w =
     parse_settled h (fst req) st (w\<lparr>parse_requests := remove1 req (parse_requests w)\<rparr>)"

text \<open>The request \<open>observeTextEditor\<close> makes for an editor: none while its URI is falsy.\<close>

definition request_of :: "world \<Rightarrow> editor_id \<Rightarrow> (editor_id \<times> string) list" where
  "request_of w e =
     (case getURI e w of
        None \<Rightarrow> []
      | Some file \<Rightarrow> if file = [] then [] else [(e, file)])"

section \<open>Concrete hosts, buffers and worlds\<close>

text \<open>Small concrete states on which the theorems below are evaluated.\<close>

definition host0 :: host where
  "host0 = \<lparr> atom_config = (\<lambda>k sc. JUndefined), checklist = (\<lambda>c. ''success'') \<rparr>"

definition guide0 :: wrap_guide where
  "guide0 =
     \<lparr> wg_editorconfig = None,
       getGuideColumn = Some (HostFn ''getGuideColumn''),
       getNativeGuideColumn = None,
       getGuidesColumns = Some (HostFn ''getGuidesColumns''),
       getNativeGuidesColumns = None \<rparr>"

definition editor0 :: "buffer_id \<Rightarrow> text_editor" where
  "editor0 b =
     \<lparr> buffer = b, usesSoftTabs = None, softTabs = JBool True, tabLength = JNum (Finite 2),
       preferredLineLength = JNum (Finite 80), rootScopeDescriptor = [],
       wrapGuide = Some guide0 \<rparr>"

definition plain_buffer :: "string option \<Rightarrow> text_buffer" where
  "plain_buffer u =
     \<lparr> uri = u, content = [], encoding = JStr ''utf8'', preferredLineEnding = JUndefined,
       subscriptions = [], editorconfig = None \<rparr>"

text \<open>Editor \<open>n\<close> shows buffer \<open>n\<close>; no buffer has been observed yet.\<close>

definition fresh_world :: "(buffer_id \<Rightarrow> string option) \<Rightarrow> editor_id list \<Rightarrow> world" where
  "fresh_world uris eds =
     \<lparr> editors = editor0, buffers = (\<lambda>b. plain_buffer (uris b)), textEditors = eds,
       parse_requests = [], unhandled_rejections = [], calls = [] \<rparr>"

text \<open>Buffer 0 has its state object; the only open editor shows buffer 1.\<close>

definition world_closed :: world where
  "world_closed = initializeTextBuffer 0 (fresh_world (\<lambda>b. Some ''/new/a.txt'') [1])"

text \<open>
  One editor on one buffer whose path is now \<^verbatim>\<open>/new/a.txt\<close>; the resolution requested
  for its earlier path \<^verbatim>\<open>/old/a.txt\<close> is still pending.
\<close>

definition world_renamed :: world where
  "world_renamed =
     (initializeTextBuffer 0 (fresh_world (\<lambda>b. Some ''/new/a.txt'') [0]))
       \<lparr>parse_requests := [(0, ''/old/a.txt''), (0, ''/new/a.txt'')]\<rparr>"





section \<open>Notions used to state the properties\<close>

text \<open>The calls that set something on an editor, a buffer or a view.\<close>

definition is_setter_call :: "call \<Rightarrow> bool" where
  "is_setter_call c =
     (case c of
        SetSoftTabs e v \<Rightarrow> True
      | SetTabLength e v \<Rightarrow> True
      | SetEncoding b v \<Rightarrow> True
      | EditorUpdate e v \<Rightarrow> True
      | UpdateGuide e \<Rightarrow> True
      | SetPreferredLineEnding b v \<Rightarrow> True
      | _ \<Rightarrow> False)"


text \<open>
  The spec's words for \<open>tab_width\<close>: parsed from \<open>indent_size\<close> if that key is
  present, else from \<open>tab_width\<close>; kept when it is a positive integer, else
  \<^verbatim>\<open>'unset'\<close>. It is compared below with \<open>normalize_tab_width\<close>, which is the code.
\<close>

definition spec_tab_width :: "RawConfig \<Rightarrow> jsval" where
  "spec_tab_width cfg =
     (case parseInt (if has_key ''indent_size'' cfg then get_prop cfg ''indent_size''
                     else get_prop cfg ''tab_width'') of
        Finite n \<Rightarrow> if 0 < n then JNum (Finite n) else unset
      | _ \<Rightarrow> unset)"

section \<open>Properties\<close>

subsection \<open>The editor found by \<open>getCurrentEditor\<close>\<close>

lemma last_match_None:
  "(foldl (\<lambda>prev curr. if P curr then Some curr else prev) acc es = None)
     = (acc = None \<and> (\<forall>e\<in>set es. \<not> P e))"
  by (induction es arbitrary: acc) auto

lemma last_match_Some:
  "foldl (\<lambda>prev curr. if P curr then Some curr else prev) acc es = Some e
     \<Longrightarrow> acc = Some e \<or> (e \<in> set es \<and> P e)"
  by (induction es arbitrary: acc) (auto split: if_splits)

lemma getCurrentEditor_None_iff:
  "getCurrentEditor b w = None \<longleftrightarrow> (\<forall>e\<in>set (textEditors w). buffer (editors w e) \<noteq> b)"
  unfolding getCurrentEditor_def by (simp add: last_match_None)

lemma getCurrentEditor_Some:
  "getCurrentEditor b w = Some e \<Longrightarrow> e \<in> set (textEditors w) \<and> buffer (editors w e) = b"
  unfolding getCurrentEditor_def by (drule last_match_Some) auto

subsection \<open>Normalisation of malformed values\<close>

text \<open>
  Claim C1 says that normalisation never throws and that every field ends in its
  documented domain or is \<^verbatim>\<open>'unset'\<close>. The code checks the type of the two boolean keys
  but calls \<open>search\<close> on \<open>indent_style\<close> (and \<open>replace\<close> on \<open>charset\<close>) whatever
  the type: on the raw mapping \<^verbatim>\<open>{indent_style: true}\<close> it throws a \<open>TypeError\<close>. And a
  raw \<open>end_of_line\<close> that names an inherited property of the lookup object, such as
  \<^verbatim>\<open>constructor\<close>, is normalised to a function.
\<close>

theorem normalize_throws_on_boolean_indent_style:
  "fst (normalize [(''indent_style'', RBool True)] initial_settings)
     = Thrown (TypeError ''config.indent_style.search is not a function'')
   \<and> end_of_line (snd (normalize [(''end_of_line'', RStr ''constructor'')] initial_settings))
     = JFunction ''constructor''"
  by (simp add: normalize_def normalize_indent_style_def get_prop_def normalize_boolean_def
      normalize_end_of_line_def lineEndings_def object_prototype_functions_def
      normalize_charset_def Let_def)

subsection \<open>The pre-save hook\<close>

text \<open>
  Claim C2 says that with \<open>insert_final_newline\<close> true the hook leaves exactly one
  trailing newline. On the content \<^verbatim>\<open>"a\n  \n"\<close> (a line, a row of two spaces, a final
  line feed) the code keeps the row of spaces as the one blank row and deletes the row
  after it together with the line feed: the saved content ends in the two spaces and
  has no final newline.
\<close>

theorem onWillSave_drops_final_newline:
  "onWillSave (initial_settings\<lparr>insert_final_newline := JBool True\<rparr>)
     [CHR ''a'', CHR 0x0A, CHR 0x20, CHR 0x20, CHR 0x0A]
   = [CHR ''a'', CHR 0x0A, CHR 0x20, CHR 0x20]"
  by code_simp

subsection \<open>An empty resolution\<close>

text \<open>
  Claim C4: when the resolution returns an empty mapping, the callback returns at once
  and the world is exactly what it was: no stored setting, editor, buffer or view has
  changed and no call has been made. Settling such a resolution only takes the request
  off the pending ones.
\<close>

theorem empty_config_is_noop:
  "then_callback h e [] w = (Returned, w)
   \<and> parse_settled h e (Resolved []) w = w
   \<and> settle h req (Resolved []) w = w\<lparr>parse_requests := remove1 req (parse_requests w)\<rparr>"
  by (simp add: then_callback_def parse_settled_def settle_def object_keys_def)

subsection \<open>The wrap-guide override\<close>

text \<open>
  Claim C6: attaching the override to a wrap-guide element a second time changes
  nothing, and after one or two attachments to an element that had none the host's own
  functions are the values of \<open>getNativeGuideColumn\<close> and \<open>getNativeGuidesColumns\<close>,
  while \<open>getGuideColumn\<close> and \<open>getGuidesColumns\<close> are the interceptor's, bound once.
\<close>

theorem intercept_wrapGuide_twice:
  "intercept_wrapGuide b' e' (intercept_wrapGuide b e wg) = intercept_wrapGuide b e wg
   \<and> (wg_editorconfig wg = None \<longrightarrow>
        getNativeGuideColumn (intercept_wrapGuide b' e' (intercept_wrapGuide b e wg))
          = getGuideColumn wg
      \<and> getNativeGuidesColumns (intercept_wrapGuide b' e' (intercept_wrapGuide b e wg))
          = getGuidesColumns wg
      \<and> getGuideColumn (intercept_wrapGuide b' e' (intercept_wrapGuide b e wg))
          = Some (BoundInterceptor ''getGuideColumn'' e)
      \<and> getGuidesColumns (intercept_wrapGuide b' e' (intercept_wrapGuide b e wg))
          = Some (BoundInterceptor ''getGuidesColumns'' e))"
  by (simp add: intercept_wrapGuide_def)

theorem intercept_wrapGuide_twice_witness:
  "wg_editorconfig guide0 = None
   \<and> intercept_wrapGuide 0 0 (intercept_wrapGuide 0 0 guide0) = intercept_wrapGuide 0 0 guide0
   \<and> getNativeGuideColumn (intercept_wrapGuide 0 0 (intercept_wrapGuide 0 0 guide0))
       = Some (HostFn ''getGuideColumn'')
   \<and> getGuideColumn (intercept_wrapGuide 0 0 (intercept_wrapGuide 0 0 guide0))
       = Some (BoundInterceptor ''getGuideColumn'' 0)"
  using intercept_wrapGuide_twice[of 0 0 0 0 guide0]
  by (simp add: guide0_def intercept_wrapGuide_def)

subsection \<open>\<open>applySettings\<close> with no editor on the buffer\<close>

text \<open>
  Claim C10: when no open text editor shows the buffer, \<open>applySettings\<close> returns the
  world unchanged: no editor, buffer or view is touched and no state update is sent.
\<close>

theorem applySettings_without_editor:
  assumes "\<forall>e\<in>set (textEditors w). buffer (editors w e) \<noteq> b"
  shows "applySettings h b w = w"
  using assms
  by (simp add: applySettings_def getCurrentEditor_None_iff[symmetric] split: option.splits)

theorem applySettings_without_editor_witness:
  "map (\<lambda>e. buffer (editors world_closed e)) (textEditors world_closed) = [1]
   \<and> editorconfig (buffers world_closed 0) \<noteq> None
   \<and> applySettings host0 0 world_closed = world_closed"
  using applySettings_without_editor[of world_closed 0 host0]
  by (simp add: world_closed_def fresh_world_def initializeTextBuffer_def upd_buffer_def
      plain_buffer_def editor0_def Let_def)

subsection \<open>Frame properties of the setters and of \<open>applySettings\<close>\<close>

lemma log_call_fields [simp]:
  "editors (log_call c w) = editors w"
  "buffers (log_call c w) = buffers w"
  "textEditors (log_call c w) = textEditors w"
  "parse_requests (log_call c w) = parse_requests w"
  "unhandled_rejections (log_call c w) = unhandled_rejections w"
  "calls (log_call c w) = calls w @ [c]"
  by (simp_all add: log_call_def)

lemma upd_editor_fields [simp]:
  "editors (upd_editor e f w) e' = (if e' = e then f (editors w e) else editors w e')"
  "buffers (upd_editor e f w) = buffers w"
  "textEditors (upd_editor e f w) = textEditors w"
  "parse_requests (upd_editor e f w) = parse_requests w"
  "unhandled_rejections (upd_editor e f w) = unhandled_rejections w"
  "calls (upd_editor e f w) = calls w"
  by (simp_all add: upd_editor_def)

lemma upd_buffer_fields [simp]:
  "buffers (upd_buffer b f w) b' = (if b' = b then f (buffers w b) else buffers w b')"
  "editors (upd_buffer b f w) = editors w"
  "textEditors (upd_buffer b f w) = textEditors w"
  "parse_requests (upd_buffer b f w) = parse_requests w"
  "unhandled_rejections (upd_buffer b f w) = unhandled_rejections w"
  "calls (upd_buffer b f w) = calls w"
  by (simp_all add: upd_buffer_def)

lemmas setter_defs = setSoftTabs_def setTabLength_def setEncoding_def editor_update_def
  setPreferredLineEnding_def ensure_wrapGuide_def

lemma apply_to_editor_other_editor:
  "e' \<noteq> e \<Longrightarrow> editors (apply_to_editor h b e s w) e' = editors w e'"
  by (simp add: apply_to_editor_def setter_defs Let_def split: option.splits)

lemma apply_to_editor_buffer_of_editor:
  "buffer (editors (apply_to_editor h b e s w) e') = buffer (editors w e')"
  by (simp add: apply_to_editor_def setter_defs Let_def split: option.splits)

lemma apply_to_editor_other_buffer:
  "b' \<noteq> b \<Longrightarrow> buffers (apply_to_editor h b e s w) b' = buffers w b'"
  by (simp add: apply_to_editor_def setter_defs Let_def split: option.splits)

lemma apply_to_editor_editorconfig:
  "editorconfig (buffers (apply_to_editor h b e s w) b') = editorconfig (buffers w b')"
  by (simp add: apply_to_editor_def setter_defs Let_def split: option.splits)

lemma apply_to_editor_textEditors:
  "textEditors (apply_to_editor h b e s w) = textEditors w"
  by (simp add: apply_to_editor_def setter_defs Let_def split: option.splits)

lemma setState_fields:
  "editors (setState h b w) = editors w"
  "textEditors (setState h b w) = textEditors w"
  "b' \<noteq> b \<Longrightarrow> buffers (setState h b w) b' = buffers w b'"
  "filter is_setter_call (calls (setState h b w)) = filter is_setter_call (calls w)"
  by (simp_all add: setState_def Let_def is_setter_call_def split: option.splits)

lemma setState_editorconfig:
  "editorconfig (buffers w b) = Some c \<Longrightarrow>
   editorconfig (buffers (setState h b w) b) = Some (c\<lparr>state := checklist h c\<rparr>)"
  by (simp add: setState_def Let_def)

lemma applySettings_other_buffer:
  "b' \<noteq> b \<Longrightarrow> buffers (applySettings h b w) b' = buffers w b'"
  by (simp add: applySettings_def setState_fields apply_to_editor_other_buffer split: option.splits)

lemma applySettings_other_editor:
  "getCurrentEditor b w \<noteq> Some e' \<Longrightarrow> editors (applySettings h b w) e' = editors w e'"
  by (auto simp add: applySettings_def setState_fields apply_to_editor_other_editor split: option.splits)

lemma applySettings_stored:
  "editorconfig (buffers w b) = Some c \<Longrightarrow>
   \<exists>c'. editorconfig (buffers (applySettings h b w) b) = Some c'
        \<and> settings c' = settings c \<and> config c' = config c"
  by (auto simp add: applySettings_def setState_editorconfig apply_to_editor_editorconfig split: option.splits)

lemma applySettings_no_editor:
  "getCurrentEditor b w = None \<Longrightarrow> applySettings h b w = w"
  by (simp add: applySettings_def split: option.splits)

subsection \<open>Settling a resolution\<close>

lemma getCurrentEditor_upd_buffer [simp]:
  "getCurrentEditor b (upd_buffer b' f w) = getCurrentEditor b w"
  by (simp add: getCurrentEditor_def)

lemma catch_Error_fields [simp]:
  "editors (catch_Error r w) = editors w"
  "buffers (catch_Error r w) = buffers w"
  "textEditors (catch_Error r w) = textEditors w"
  "parse_requests (catch_Error r w) = parse_requests w"
  "filter is_setter_call (calls (catch_Error r w)) = filter is_setter_call (calls w)"
  by (simp_all add: catch_Error_def is_setter_call_def split: reason.splits)

lemma then_callback_other_buffer:
  "b' \<noteq> buffer (editors w e) \<Longrightarrow>
   buffers (snd (then_callback h e cfg w)) b' = buffers w b'"
  by (simp add: then_callback_def Let_def applySettings_other_buffer
      split: option.splits prod.splits outcome.splits)

lemma then_callback_other_editor:
  "getCurrentEditor (buffer (editors w e)) w \<noteq> Some e' \<Longrightarrow>
   editors (snd (then_callback h e cfg w)) e' = editors w e'"
  by (simp add: then_callback_def Let_def applySettings_other_editor
      split: option.splits prod.splits outcome.splits)

lemma then_callback_no_editor:
  "getCurrentEditor (buffer (editors w e)) w = None \<Longrightarrow>
   editors (snd (then_callback h e cfg w)) = editors w
   \<and> calls (snd (then_callback h e cfg w)) = calls w"
  by (simp add: then_callback_def Let_def applySettings_no_editor
      split: option.splits prod.splits outcome.splits)

lemma then_callback_overwrites:
  assumes "object_keys cfg \<noteq> []" "editorconfig (buffers w (buffer (editors w e))) = Some c"
    "normalize cfg (settings c) = (Returned, s')"
  shows "\<exists>c'. editorconfig (buffers (snd (then_callback h e cfg w)) (buffer (editors w e))) = Some c'
        \<and> settings c' = s' \<and> config c' = Some cfg"
proof -
  let ?b = "buffer (editors w e)"
  let ?w1 = "upd_buffer ?b (\<lambda>bf. bf\<lparr>editorconfig := Some (c\<lparr>config := Some cfg, settings := s'\<rparr>)\<rparr>) w"
  have "editorconfig (buffers ?w1 ?b) = Some (c\<lparr>config := Some cfg, settings := s'\<rparr>)" by simp
  from applySettings_stored[OF this, of h]
  obtain c' where "editorconfig (buffers (applySettings h ?b ?w1) ?b) = Some c'"
    "settings c' = s'" "config c' = Some cfg" by auto
  moreover have "snd (then_callback h e cfg w) = applySettings h ?b ?w1"
    using assms by (simp add: then_callback_def Let_def)
  ultimately show ?thesis by auto
qed

lemma parse_settled_Resolved_fields:
  "buffers (parse_settled h e (Resolved cfg) w) = buffers (snd (then_callback h e cfg w))"
  "editors (parse_settled h e (Resolved cfg) w) = editors (snd (then_callback h e cfg w))"
  "filter is_setter_call (calls (parse_settled h e (Resolved cfg) w))
     = filter is_setter_call (calls (snd (then_callback h e cfg w)))"
  by (simp_all add: parse_settled_def split: prod.splits outcome.splits)

lemma settle_Returned:
  assumes "object_keys cfg \<noteq> []"
    and "editorconfig (buffers w (buffer (editors w e))) = Some c"
    and "normalize cfg (settings c) = (Returned, s')"
  shows "settle h (e, file) (Resolved cfg) w
     = applySettings h (buffer (editors w e))
         (upd_buffer (buffer (editors w e))
            (\<lambda>bf. bf\<lparr>editorconfig := Some (c\<lparr>config := Some cfg, settings := s'\<rparr>)\<rparr>)
            (w\<lparr>parse_requests := remove1 (e, file) (parse_requests w)\<rparr>))"
  using assms by (simp add: settle_def parse_settled_def then_callback_def Let_def)

lemma apply_to_editor_softTabs:
  "indent_style s \<noteq> unset \<Longrightarrow>
   softTabs (editors (apply_to_editor h b e s w) e) = JBool (indent_style s = JStr ''space'')"
  by (simp add: apply_to_editor_def setter_defs Let_def split: option.splits)

lemma applySettings_softTabs:
  assumes "editorconfig (buffers w b) = Some c" and "getCurrentEditor b w = Some e"
    and "indent_style (settings c) \<noteq> unset"
  shows "softTabs (editors (applySettings h b w) e) = JBool (indent_style (settings c) = JStr ''space'')"
  using assms getCurrentEditor_Some[OF assms(2)]
  by (simp add: applySettings_def setState_fields apply_to_editor_softTabs)

lemma settle_softTabs:
  assumes "object_keys cfg \<noteq> []"
    and "editorconfig (buffers w (buffer (editors w e))) = Some c"
    and "normalize cfg (settings c) = (Returned, s')"
    and "getCurrentEditor (buffer (editors w e)) w = Some e'"
    and "indent_style s' \<noteq> unset"
  shows "softTabs (editors (settle h (e, file) (Resolved cfg) w) e') = JBool (indent_style s' = JStr ''space'')"
proof -
  let ?b = "buffer (editors w e)"
  let ?w1 = "upd_buffer ?b (\<lambda>bf. bf\<lparr>editorconfig := Some (c\<lparr>config := Some cfg, settings := s'\<rparr>)\<rparr>)
            (w\<lparr>parse_requests := remove1 (e, file) (parse_requests w)\<rparr>)"
  have g: "getCurrentEditor ?b ?w1 = Some e'"
    using assms(4) by (simp add: getCurrentEditor_def)
  have c: "editorconfig (buffers ?w1 ?b) = Some (c\<lparr>config := Some cfg, settings := s'\<rparr>)"
    by simp
  show ?thesis
    using applySettings_softTabs[OF c g, of h] assms(5)
    by (simp add: settle_Returned[OF assms(1,2,3)])
qed

lemma settle_overwrites:
  assumes "object_keys cfg \<noteq> []"
    and "editorconfig (buffers w (buffer (editors w e))) = Some c"
    and "normalize cfg (settings c) = (Returned, s')"
  shows "\<exists>c'. editorconfig (buffers (settle h (e, file) (Resolved cfg) w) (buffer (editors w e))) = Some c'
        \<and> settings c' = s' \<and> config c' = Some cfg"
proof -
  let ?b = "buffer (editors w e)"
  let ?w1 = "upd_buffer ?b (\<lambda>bf. bf\<lparr>editorconfig := Some (c\<lparr>config := Some cfg, settings := s'\<rparr>)\<rparr>)
            (w\<lparr>parse_requests := remove1 (e, file) (parse_requests w)\<rparr>)"
  have c: "editorconfig (buffers ?w1 ?b) = Some (c\<lparr>config := Some cfg, settings := s'\<rparr>)"
    by simp
  show ?thesis
    using applySettings_stored[OF c, of h]
    by (simp add: settle_Returned[OF assms])
qed

lemma then_callback_cases:
  "then_callback h e cfg w = (out, w') \<Longrightarrow>
     w' = w
   \<or> (\<exists>c s'. w' = upd_buffer (buffer (editors w e))
                  (\<lambda>bf. bf\<lparr>editorconfig := Some (c\<lparr>config := Some cfg, settings := s'\<rparr>)\<rparr>) w
           \<or> w' = applySettings h (buffer (editors w e)) (upd_buffer (buffer (editors w e))
                  (\<lambda>bf. bf\<lparr>editorconfig := Some (c\<lparr>config := Some cfg, settings := s'\<rparr>)\<rparr>) w))"
  unfolding then_callback_def Let_def
  by (auto split: if_splits option.splits prod.splits outcome.splits)

lemma applySettings_shape:
  "textEditors (applySettings h b w) = textEditors w
   \<and> buffer (editors (applySettings h b w) e) = buffer (editors w e)"
  by (simp add: applySettings_def setState_fields apply_to_editor_textEditors
      apply_to_editor_buffer_of_editor split: option.splits)

lemma settle_shape:
  "textEditors (settle h req st w) = textEditors w
   \<and> buffer (editors (settle h req st w) e) = buffer (editors w e)"
proof (cases st)
  case (Rejected r)
  then show ?thesis by (simp add: settle_def parse_settled_def)
next
  case (Resolved cfg)
  let ?w0 = "w\<lparr>parse_requests := remove1 req (parse_requests w)\<rparr>"
  obtain out w' where tc: "then_callback h (fst req) cfg ?w0 = (out, w')"
    by (cases "then_callback h (fst req) cfg ?w0")
  have "textEditors w' = textEditors w \<and> buffer (editors w' e) = buffer (editors w e)"
    using then_callback_cases[OF tc] by (auto simp add: applySettings_shape)
  then show ?thesis
    using Resolved tc by (simp add: settle_def parse_settled_def split: outcome.splits)
qed

lemma getCurrentEditor_settle:
  "getCurrentEditor b (settle h req st w) = getCurrentEditor b w"
  by (simp add: getCurrentEditor_def settle_shape)

lemma normalize_indent_style_only:
  "normalize [(''indent_style'', RStr ''tab'')] s
     = (Returned, \<lparr> trim_trailing_whitespace = unset, insert_final_newline = unset,
          max_line_length = unset, end_of_line = unset, indent_style = JStr ''tab'',
          tab_width = unset, charset = unset \<rparr>)"
  "normalize [(''indent_style'', RStr ''space'')] s
     = (Returned, \<lparr> trim_trailing_whitespace = unset, insert_final_newline = unset,
          max_line_length = unset, end_of_line = unset, indent_style = JStr ''space'',
          tab_width = unset, charset = unset \<rparr>)"
  by (cases s;
      simp add: normalize_def normalize_boolean_def normalize_indent_style_def
      normalize_end_of_line_def normalize_tab_width_def normalize_max_line_length_def
      normalize_charset_def get_prop_def js_or_def positive_or_unset_def parseInt_def
      parseInt10_def strip_sign_def lineEndings_def object_prototype_functions_def
      matches_space_or_tab_def is_js_space_def is_digit_def Let_def)+

subsection \<open>Observation and re-resolution\<close>

lemma initializeTextBuffer_fields [simp]:
  "editors (initializeTextBuffer b w) = editors w"
  "textEditors (initializeTextBuffer b w) = textEditors w"
  "parse_requests (initializeTextBuffer b w) = parse_requests w"
  "calls (initializeTextBuffer b w) = calls w"
  "unhandled_rejections (initializeTextBuffer b w) = unhandled_rejections w"
  "uri (buffers (initializeTextBuffer b w) b') = uri (buffers w b')"
  by (simp_all add: initializeTextBuffer_def Let_def)

lemma subscribe_observe_fields [simp]:
  "editors (subscribe_observe e w) = editors w"
  "textEditors (subscribe_observe e w) = textEditors w"
  "parse_requests (subscribe_observe e w) = parse_requests w"
  "calls (subscribe_observe e w) = calls w"
  "uri (buffers (subscribe_observe e w) b') = uri (buffers w b')"
  by (simp_all add: subscribe_observe_def)

lemma getURI_initializeTextBuffer [simp]:
  "getURI e (initializeTextBuffer b w) = getURI e w"
  by (simp add: getURI_def)

lemma observeTextEditor_fields [simp]:
  "editors (observeTextEditor ed w) = editors w"
  "textEditors (observeTextEditor ed w) = textEditors w"
  "calls (observeTextEditor ed w) = calls w"
  "uri (buffers (observeTextEditor ed w) b') = uri (buffers w b')"
  by (simp_all add: observeTextEditor_def Let_def split: option.splits)


lemma request_of_observeTextEditor [simp]:
  "request_of (observeTextEditor ed w) e' = request_of w e'"
  by (simp add: request_of_def getURI_def)




subsection \<open>Facts about the concrete worlds\<close>


lemma world_renamed_facts:
  "buffer (editors world_renamed e) = e"
  "textEditors world_renamed = [0]"
  "editorconfig (buffers world_renamed 0) = Some (new_ecfg 0 (Some ''/new/a.txt''))"
  "getURI 0 world_renamed = Some ''/new/a.txt''"
  "parse_requests world_renamed = [(0, ''/old/a.txt''), (0, ''/new/a.txt'')]"
  "softTabs (editors world_renamed 0) = JBool True"
  "calls world_renamed = []"
  "unhandled_rejections world_renamed = []"
  by (simp_all add: world_renamed_def fresh_world_def plain_buffer_def editor0_def
      initializeTextBuffer_def upd_buffer_def getURI_def Let_def)







subsection \<open>Stale resolutions\<close>

text \<open>
  Claim C3, as amended. A resolution that settles is applied to the buffer of the editor
  that requested it: no other buffer changes, and no editor changes but the one
  \<open>getCurrentEditor\<close> finds for that buffer, which is an open editor whose buffer is
  that very buffer; with no such editor no setter is called and no editor changes. The
  path the resolution was requested for plays no part: a non-empty result that
  normalises is always stored, with its settings.
\<close>

theorem settle_mutates_only_displayed_editor:
  "(\<forall>b'. b' \<noteq> buffer (editors w e) \<longrightarrow>
       buffers (settle h (e, file) (Resolved cfg) w) b' = buffers w b')
   \<and> (\<forall>e'. getCurrentEditor (buffer (editors w e)) w \<noteq> Some e' \<longrightarrow>
       editors (settle h (e, file) (Resolved cfg) w) e' = editors w e')
   \<and> (\<forall>e'. getCurrentEditor (buffer (editors w e)) w = Some e' \<longrightarrow>
       e' \<in> set (textEditors w) \<and> buffer (editors w e') = buffer (editors w e))
   \<and> (getCurrentEditor (buffer (editors w e)) w = None \<longrightarrow>
       editors (settle h (e, file) (Resolved cfg) w) = editors w
       \<and> filter is_setter_call (calls (settle h (e, file) (Resolved cfg) w))
           = filter is_setter_call (calls w))
   \<and> (\<forall>c s'. object_keys cfg \<noteq> [] \<and> editorconfig (buffers w (buffer (editors w e))) = Some c
           \<and> normalize cfg (settings c) = (Returned, s') \<longrightarrow>
       (\<exists>c'. editorconfig (buffers (settle h (e, file) (Resolved cfg) w) (buffer (editors w e))) = Some c'
            \<and> settings c' = s' \<and> config c' = Some cfg))"
proof -
  define b where "b = buffer (editors w e)"
  define w' where "w' = settle h (e, file) (Resolved cfg) w"
  let ?w0 = "w\<lparr>parse_requests := remove1 (e, file) (parse_requests w)\<rparr>"
  have gce: "getCurrentEditor b ?w0 = getCurrentEditor b w"
    by (simp add: getCurrentEditor_def)
  have w': "w' = parse_settled h e (Resolved cfg) ?w0"
    by (simp add: w'_def settle_def)
  have b0: "buffer (editors ?w0 e) = b" by (simp add: b_def)
  have 1: "\<forall>b'. b' \<noteq> b \<longrightarrow> buffers w' b' = buffers w b'"
    using then_callback_other_buffer[of _ ?w0 e h cfg] b0
    by (simp add: w' parse_settled_Resolved_fields)
  have 2: "\<forall>e'. getCurrentEditor b w \<noteq> Some e' \<longrightarrow> editors w' e' = editors w e'"
    using then_callback_other_editor[of ?w0 e _ h cfg] b0 gce
    by (simp add: w' parse_settled_Resolved_fields)
  have 3: "\<forall>e'. getCurrentEditor b w = Some e' \<longrightarrow> e' \<in> set (textEditors w) \<and> buffer (editors w e') = b"
    using getCurrentEditor_Some by blast
  have 4: "getCurrentEditor b w = None \<longrightarrow>
          editors w' = editors w
        \<and> filter is_setter_call (calls w') = filter is_setter_call (calls w)"
    using then_callback_no_editor[of ?w0 e h cfg] b0 gce
    by (simp add: w' parse_settled_Resolved_fields)
  have 5: "\<forall>c s'. object_keys cfg \<noteq> [] \<and> editorconfig (buffers w b) = Some c
           \<and> normalize cfg (settings c) = (Returned, s') \<longrightarrow>
          (\<exists>c'. editorconfig (buffers w' b) = Some c' \<and> settings c' = s' \<and> config c' = Some cfg)"
    using then_callback_overwrites[of cfg ?w0 e _ _ h] b0
    by (simp add: w' parse_settled_Resolved_fields)
  from 1 2 3 4 5 show ?thesis unfolding b_def w'_def by blast
qed

theorem settle_mutates_only_displayed_editor_witness:
  "getCurrentEditor (buffer (editors world_renamed 0)) world_renamed = Some 0
   \<and> buffer (editors world_renamed 0) = 0
   \<and> buffers (settle host0 (0, ''/old/a.txt'') (Resolved [(''indent_style'', RStr ''tab'')]) world_renamed) 1
       = buffers world_renamed 1
   \<and> editors (settle host0 (0, ''/old/a.txt'') (Resolved [(''indent_style'', RStr ''tab'')]) world_renamed) 1
       = editors world_renamed 1
   \<and> (\<exists>c'. editorconfig (buffers
          (settle host0 (0, ''/old/a.txt'') (Resolved [(''indent_style'', RStr ''tab'')]) world_renamed) 0) = Some c'
        \<and> indent_style (settings c') = JStr ''tab''
        \<and> config c' = Some [(''indent_style'', RStr ''tab'')])"
proof -
  note t = settle_mutates_only_displayed_editor[of world_renamed 0 host0 "''/old/a.txt''"
      "[(''indent_style'', RStr ''tab'')]"]
  have b: "buffer (editors world_renamed 0) = 0"
    by (simp add: world_renamed_facts)
  have g: "getCurrentEditor (buffer (editors world_renamed 0)) world_renamed = Some 0"
    by (simp add: getCurrentEditor_def world_renamed_facts)
  have k: "object_keys [(''indent_style'', RStr ''tab'')] \<noteq> []"
    by (simp add: object_keys_def)
  from t g b have 1: "buffers (settle host0 (0, ''/old/a.txt'') (Resolved [(''indent_style'', RStr ''tab'')]) world_renamed) 1
       = buffers world_renamed 1" by simp
  from t g b have 2: "editors (settle host0 (0, ''/old/a.txt'') (Resolved [(''indent_style'', RStr ''tab'')]) world_renamed) 1
       = editors world_renamed 1" by simp
  from t b k normalize_indent_style_only(1)[of "settings (new_ecfg 0 (Some ''/new/a.txt''))"]
  have 3: "\<exists>c'. editorconfig (buffers
          (settle host0 (0, ''/old/a.txt'') (Resolved [(''indent_style'', RStr ''tab'')]) world_renamed) 0) = Some c'
        \<and> indent_style (settings c') = JStr ''tab''
        \<and> config c' = Some [(''indent_style'', RStr ''tab'')]"
    by (auto simp add: world_renamed_facts)
  from g b 1 2 3 show ?thesis by blast
qed

text \<open>
  Claim C3 as it is stated fails. The buffer's path is \<^verbatim>\<open>/new/a.txt\<close>; the resolution
  for that path settles first and stores \<open>indent_style\<close> \<^verbatim>\<open>space\<close>. The resolution
  requested earlier for \<^verbatim>\<open>/old/a.txt\<close> settles afterwards: it overwrites the stored
  setting with \<^verbatim>\<open>tab\<close> and switches the editor's soft tabs off.
\<close>

theorem stale_resolution_overwrites_settings:
  "getURI 0 world_renamed = Some ''/new/a.txt''
   \<and> (0, ''/old/a.txt'') \<in> set (parse_requests world_renamed)
   \<and> map_option (\<lambda>c. indent_style (settings c))
        (editorconfig (buffers
          (settle host0 (0, ''/new/a.txt'') (Resolved [(''indent_style'', RStr ''space'')]) world_renamed) 0))
       = Some (JStr ''space'')
   \<and> map_option (\<lambda>c. indent_style (settings c))
        (editorconfig (buffers
          (settle host0 (0, ''/old/a.txt'') (Resolved [(''indent_style'', RStr ''tab'')])
            (settle host0 (0, ''/new/a.txt'') (Resolved [(''indent_style'', RStr ''space'')]) world_renamed)) 0))
       = Some (JStr ''tab'')
   \<and> softTabs (editors
          (settle host0 (0, ''/old/a.txt'') (Resolved [(''indent_style'', RStr ''tab'')])
            (settle host0 (0, ''/new/a.txt'') (Resolved [(''indent_style'', RStr ''space'')]) world_renamed)) 0)
       = JBool False"
proof -
  let ?w2 = "settle host0 (0, ''/new/a.txt'') (Resolved [(''indent_style'', RStr ''space'')]) world_renamed"
  let ?w3 = "settle host0 (0, ''/old/a.txt'') (Resolved [(''indent_style'', RStr ''tab'')]) ?w2"
  have ks: "object_keys [(''indent_style'', RStr ''space'')] \<noteq> []"
    and kt: "object_keys [(''indent_style'', RStr ''tab'')] \<noteq> []"
    by (simp_all add: object_keys_def)
  have c0: "editorconfig (buffers world_renamed (buffer (editors world_renamed 0)))
      = Some (new_ecfg 0 (Some ''/new/a.txt''))"
    by (simp add: world_renamed_facts)
  obtain c2 where c2: "editorconfig (buffers ?w2 0) = Some c2"
    "indent_style (settings c2) = JStr ''space''"
    using settle_overwrites[OF ks c0 normalize_indent_style_only(2), of host0 "''/new/a.txt''"]
    by (auto simp add: world_renamed_facts)
  have b2: "buffer (editors ?w2 0) = 0"
    by (simp add: settle_shape world_renamed_facts)
  have g2: "getCurrentEditor (buffer (editors ?w2 0)) ?w2 = Some 0"
    unfolding b2 by (simp add: getCurrentEditor_settle) (simp add: getCurrentEditor_def world_renamed_facts)
  have c2': "editorconfig (buffers ?w2 (buffer (editors ?w2 0))) = Some c2"
    unfolding b2 by (rule c2)
  obtain c3 where c3: "editorconfig (buffers ?w3 0) = Some c3"
    "indent_style (settings c3) = JStr ''tab''"
    using settle_overwrites[OF kt c2' normalize_indent_style_only(1), of host0 "''/old/a.txt''"]
    by (auto simp add: b2)
  have 5: "softTabs (editors ?w3 0) = JBool False"
    using settle_softTabs[OF kt c2' normalize_indent_style_only(1) g2, of host0 "''/old/a.txt''"]
    by (simp add: unset_def)
  show ?thesis
    using c2 c3 5 by (simp add: world_renamed_facts)
qed

subsection \<open>A rejected resolution\<close>

text \<open>
  Claim C5, as amended. Whatever the reason of the rejection, no editor and no buffer
  (with its stored settings and state) changes and no setter is called. When the
  reason is an instance of \<open>Error\<close> the failure is handled by the filtered catch and
  logged with \<open>console.warn\<close>, and nothing stays unhandled; when it is not, the
  filtered catch does not handle it: nothing is logged and the rejection stays
  unhandled.
\<close>

theorem rejection_is_ignored:
  "editors (settle h req (Rejected r) w) = editors w
   \<and> buffers (settle h req (Rejected r) w) = buffers w
   \<and> textEditors (settle h req (Rejected r) w) = textEditors w
   \<and> filter is_setter_call (calls (settle h req (Rejected r) w)) = filter is_setter_call (calls w)
   \<and> (\<forall>msg. r = ErrorInstance msg \<longrightarrow>
         calls (settle h req (Rejected r) w) = calls w @ [ConsoleWarn (''atom-editorconfig: '' @ msg)]
       \<and> unhandled_rejections (settle h req (Rejected r) w) = unhandled_rejections w)
   \<and> (\<forall>msg. r = NotAnError msg \<longrightarrow>
         calls (settle h req (Rejected r) w) = calls w
       \<and> unhandled_rejections (settle h req (Rejected r) w) = unhandled_rejections w @ [r])"
  by (simp add: settle_def parse_settled_def catch_Error_def is_setter_call_def log_call_def
      split: reason.splits)

theorem rejection_is_ignored_witness:
  "calls (settle host0 (0, ''/new/a.txt'') (Rejected (ErrorInstance ''Error: EACCES'')) world_renamed)
     = [ConsoleWarn ''atom-editorconfig: Error: EACCES'']
   \<and> buffers (settle host0 (0, ''/new/a.txt'') (Rejected (ErrorInstance ''Error: EACCES'')) world_renamed)
     = buffers world_renamed
   \<and> editors (settle host0 (0, ''/new/a.txt'') (Rejected (ErrorInstance ''Error: EACCES'')) world_renamed)
     = editors world_renamed
   \<and> calls (settle host0 (0, ''/new/a.txt'') (Rejected (NotAnError ''EACCES'')) world_renamed) = []
   \<and> unhandled_rejections (settle host0 (0, ''/new/a.txt'') (Rejected (NotAnError ''EACCES'')) world_renamed)
       = [NotAnError ''EACCES'']"
  using rejection_is_ignored[of host0 "(0, ''/new/a.txt'')" "ErrorInstance ''Error: EACCES''" world_renamed]
    rejection_is_ignored[of host0 "(0, ''/new/a.txt'')" "NotAnError ''EACCES''" world_renamed]
  by (simp add: world_renamed_facts)

text \<open>
  Claim C5 as it is stated fails for a rejection whose reason is not an instance of
  \<open>Error\<close>: the filtered catch does not handle it, so nothing is logged and the
  rejection stays unhandled.
\<close>

theorem rejection_with_other_reason_is_not_logged:
  "calls (settle host0 (0, ''/new/a.txt'') (Rejected (NotAnError ''boom'')) world_renamed) = []
   \<and> unhandled_rejections (settle host0 (0, ''/new/a.txt'') (Rejected (NotAnError ''boom'')) world_renamed)
       = [NotAnError ''boom'']"
  by (simp add: settle_def parse_settled_def catch_Error_def world_renamed_facts)

subsection \<open>Saving a \<^verbatim>\<open>.editorconfig\<close> file\<close>




subsection \<open>The normalised \<open>tab_width\<close>\<close>

lemma digit_is_plain:
  "is_digit c \<Longrightarrow> \<not> is_js_space c \<and> c \<noteq> CHR ''-'' \<and> c \<noteq> CHR ''+''"
  by (auto simp add: is_digit_def is_js_space_def)

lemma parseInt10_digits:
  assumes "ds \<noteq> []" and "list_all is_digit ds"
  shows "parseInt10 ds = to_Number (digits_value ds)"
proof -
  obtain c cs where ds: "ds = c # cs" using assms(1) by (cases ds) auto
  have c: "is_digit c" using assms(2) ds by simp
  have tw: "takeWhile is_digit ds = ds"
    using assms(2) by (simp add: list_all_iff)
  show ?thesis
    using digit_is_plain[OF c] tw ds
    by (simp add: parseInt10_def strip_sign_def)
qed

lemma positive_or_unset_cases:
  "positive_or_unset NaN = unset"
  "i \<le> 0 \<Longrightarrow> positive_or_unset (Finite i) = unset"
  "0 < i \<Longrightarrow> positive_or_unset (Finite i) = JNum (Finite i)"
  by (simp_all add: positive_or_unset_def)

text \<open>
  Claim C8, as amended. The value is parsed from the raw \<open>indent_size\<close> when that is
  truthy (a non-empty string or \<open>true\<close>) and from the raw \<open>tab_width\<close> otherwise.
  It is kept when the parse is a positive integer, and it is \<^verbatim>\<open>'unset'\<close> when the parse
  is \<open>NaN\<close> or an integer that is not positive. A string of digits with a value below
  \<open>2^53\<close> parses to that value; \<^verbatim>\<open>"0"\<close>, \<^verbatim>\<open>"-3"\<close> and \<^verbatim>\<open>"abc"\<close> give
  \<^verbatim>\<open>'unset'\<close> and \<^verbatim>\<open>"4"\<close> gives 4, under either key.
\<close>

theorem tab_width_normalization:
  "(\<forall>v. (truthy (get_prop cfg ''indent_size'') \<and> v = get_prop cfg ''indent_size'')
        \<or> (\<not> truthy (get_prop cfg ''indent_size'') \<and> v = get_prop cfg ''tab_width'') \<longrightarrow>
        (\<forall>i. parseInt v = Finite i \<and> 0 < i \<longrightarrow> normalize_tab_width cfg = JNum (Finite i))
      \<and> (\<forall>i. parseInt v = Finite i \<and> i \<le> 0 \<longrightarrow> normalize_tab_width cfg = unset)
      \<and> (parseInt v = NaN \<longrightarrow> normalize_tab_width cfg = unset))
   \<and> (\<forall>ds. ds \<noteq> [] \<and> list_all is_digit ds \<and> digits_value ds < 2 ^ 53 \<longrightarrow>
        parseInt (Some (RStr ds)) = Finite (int (digits_value ds)))
   \<and> normalize_tab_width [(''tab_width'', RStr ''0'')] = unset
   \<and> normalize_tab_width [(''tab_width'', RStr ''-3'')] = unset
   \<and> normalize_tab_width [(''tab_width'', RStr ''abc'')] = unset
   \<and> normalize_tab_width [(''tab_width'', RStr ''4'')] = JNum (Finite 4)
   \<and> normalize_tab_width [(''indent_size'', RStr ''0'')] = unset
   \<and> normalize_tab_width [(''indent_size'', RStr ''-3'')] = unset
   \<and> normalize_tab_width [(''indent_size'', RStr ''abc'')] = unset
   \<and> normalize_tab_width [(''indent_size'', RStr ''4'')] = JNum (Finite 4)"
proof -
  have 1: "\<forall>v. (truthy (get_prop cfg ''indent_size'') \<and> v = get_prop cfg ''indent_size'')
        \<or> (\<not> truthy (get_prop cfg ''indent_size'') \<and> v = get_prop cfg ''tab_width'') \<longrightarrow>
        (\<forall>i. parseInt v = Finite i \<and> 0 < i \<longrightarrow> normalize_tab_width cfg = JNum (Finite i))
      \<and> (\<forall>i. parseInt v = Finite i \<and> i \<le> 0 \<longrightarrow> normalize_tab_width cfg = unset)
      \<and> (parseInt v = NaN \<longrightarrow> normalize_tab_width cfg = unset)"
    by (auto simp add: normalize_tab_width_def js_or_def positive_or_unset_cases)
  have 2: "\<forall>ds. ds \<noteq> [] \<and> list_all is_digit ds \<and> digits_value ds < 2 ^ 53 \<longrightarrow>
        parseInt (Some (RStr ds)) = Finite (int (digits_value ds))"
    by (simp add: parseInt_def parseInt10_digits to_Number_def)
  have 3: "normalize_tab_width [(''tab_width'', RStr ''0'')] = unset"
    "normalize_tab_width [(''tab_width'', RStr ''-3'')] = unset"
    "normalize_tab_width [(''tab_width'', RStr ''abc'')] = unset"
    "normalize_tab_width [(''tab_width'', RStr ''4'')] = JNum (Finite 4)"
    "normalize_tab_width [(''indent_size'', RStr ''0'')] = unset"
    "normalize_tab_width [(''indent_size'', RStr ''-3'')] = unset"
    "normalize_tab_width [(''indent_size'', RStr ''abc'')] = unset"
    "normalize_tab_width [(''indent_size'', RStr ''4'')] = JNum (Finite 4)"
    by (simp_all add: normalize_tab_width_def get_prop_def js_or_def positive_or_unset_def
        parseInt_def parseInt10_def strip_sign_def is_js_space_def is_digit_def digits_value_def
        to_Number_def)
  from 1 2 3 show ?thesis by blast
qed

theorem tab_width_normalization_witness:
  "truthy (get_prop [(''indent_size'', RStr ''4''), (''tab_width'', RStr ''8'')] ''indent_size'')
   \<and> parseInt (Some (RStr ''4'')) = Finite 4
   \<and> normalize_tab_width [(''indent_size'', RStr ''4''), (''tab_width'', RStr ''8'')] = JNum (Finite 4)
   \<and> \<not> truthy (get_prop [(''indent_size'', RBool False), (''tab_width'', RStr ''abc'')] ''indent_size'')
   \<and> parseInt (Some (RStr ''abc'')) = NaN
   \<and> normalize_tab_width [(''indent_size'', RBool False), (''tab_width'', RStr ''abc'')] = unset"
proof -
  have p4: "parseInt (Some (RStr ''4'')) = Finite 4"
    and pa: "parseInt (Some (RStr ''abc'')) = NaN"
    by (simp_all add: parseInt_def parseInt10_def strip_sign_def is_js_space_def is_digit_def
        digits_value_def to_Number_def)
  show ?thesis
    using tab_width_normalization[of "[(''indent_size'', RStr ''4''), (''tab_width'', RStr ''8'')]"]
      tab_width_normalization[of "[(''indent_size'', RBool False), (''tab_width'', RStr ''abc'')]"]
      p4 pa
    by (simp add: get_prop_def)
qed

text \<open>
  Claim C8 as it is stated fails when \<open>indent_size\<close> is present but falsy: with an
  empty \<open>indent_size\<close> and \<open>tab_width\<close> \<^verbatim>\<open>"4"\<close> the code falls back to \<open>tab_width\<close>
  and yields 4, where the claim's reading yields \<^verbatim>\<open>'unset'\<close>.
\<close>

theorem tab_width_falls_back_on_falsy_indent_size:
  "has_key ''indent_size'' [(''indent_size'', RStr ''''), (''tab_width'', RStr ''4'')]
   \<and> normalize_tab_width [(''indent_size'', RStr ''''), (''tab_width'', RStr ''4'')] = JNum (Finite 4)
   \<and> spec_tab_width [(''indent_size'', RStr ''''), (''tab_width'', RStr ''4'')] = unset"
  by (simp add: has_key_def spec_tab_width_def normalize_tab_width_def get_prop_def js_or_def
      positive_or_unset_def parseInt_def parseInt10_def strip_sign_def
      is_js_space_def is_digit_def digits_value_def to_Number_def unset_def)

subsection \<open>Teardown\<close>

lemma dispose_fields [simp]:
  "editors (dispose b w) = editors w"
  "textEditors (dispose b w) = textEditors w"
  "calls (dispose b w) = calls w"
  "parse_requests (dispose b w) = parse_requests w"
  by (simp_all add: dispose_def split: option.splits)

lemma dispose_editorconfig_None [simp]:
  "(editorconfig (buffers (dispose b w) b') = None) = (editorconfig (buffers w b') = None)"
  by (simp add: dispose_def split: option.splits)





















end
